theory Spec2Isabelle
  imports Main "HOL-Library.Sublist"
begin

section \<open>Python values handled by the bot\<close>

text \<open>
  \<^verbatim>\<open>response.json()\<close> yields Python objects. A Python \<^verbatim>\<open>str\<close> is kept as the list of its
  UTF-8 bytes, so concatenation, equality and the substring test agree with Python's.
  \<open>PNone\<close> is \<^verbatim>\<open>None\<close>. JSON numbers with a fraction or an exponent (Python floats) are
  left out of the model: the endpoint's payload has strings, integers, lists and objects.
  A dict is an association list read through \<open>map_of\<close>.
\<close>

datatype scalar = PNone | PBool bool | PInt int | PStr string

datatype json = Scalar scalar | JList "json list" | JDict "(string \<times> json) list"

text \<open>
  Exceptions are values: the class and the single argument given to the constructor.
  All classes below derive from \<^verbatim>\<open>Exception\<close>; \<open>StatusCodeError\<close> is the class imported
  from the bot's \<^verbatim>\<open>exceptions\<close> module, \<open>RequestException\<close> and \<open>TelegramError\<close> are the
  base classes of what the two client libraries raise.
\<close>

datatype exn_class =
  Exception | TypeError | KeyError | ValueError | IndexError
  | StatusCodeError | RequestException | TelegramError

datatype exn = Exn exn_class string

fun isinstance :: "exn \<Rightarrow> exn_class \<Rightarrow> bool" where
  "isinstance (Exn c arg) c' = (c = c' \<or> c' = Exception)"

text \<open>
  What the expression after \<^verbatim>\<open>except\<close> evaluates to: a class (\<^verbatim>\<open>except Exception\<close>) or an
  instance (\<^verbatim>\<open>except requests.RequestException()\<close>, the class called with no argument).
  Python 3 matches a raised exception against a class with \<^verbatim>\<open>isinstance\<close>; against
  anything that is not a class derived from \<^verbatim>\<open>BaseException\<close> the match itself raises
  \<^verbatim>\<open>TypeError\<close>, which leaves the \<^verbatim>\<open>try\<close> statement without trying the later clauses.
\<close>

datatype handler_expr = ExcClass exn_class | ExcInstance exn_class

definition CANNOT_CATCH_MSG :: string where
  "CANNOT_CATCH_MSG =
     ''catching classes that do not inherit from BaseException is not allowed''"

fun exc_match :: "exn \<Rightarrow> handler_expr \<Rightarrow> exn + bool" where
  "exc_match exc (ExcClass c) = Inr (isinstance exc c)"
| "exc_match exc (ExcInstance c) = Inl (Exn TypeError CANNOT_CATCH_MSG)"

subsection \<open>Built-in operations\<close>

definition quoted :: "string \<Rightarrow> string" where
  "quoted s = [CHR 0x27] @ s @ [CHR 0x27]"

fun type_name :: "json \<Rightarrow> string" where
  "type_name (Scalar PNone) = ''NoneType''"
| "type_name (Scalar (PBool b)) = ''bool''"
| "type_name (Scalar (PInt i)) = ''int''"
| "type_name (Scalar (PStr s)) = ''str''"
| "type_name (JList xs) = ''list''"
| "type_name (JDict d) = ''dict''"

text \<open>\<^verbatim>\<open>f'{type(x)}'\<close>, for instance \<^verbatim>\<open><class 'list'>\<close>.\<close>

definition type_repr :: "json \<Rightarrow> string" where
  "type_repr x = ''<class '' @ quoted (type_name x) @ ''>''"

fun digits :: "nat \<Rightarrow> string" where
  "digits n =
     (if n < 10 then [''0123456789'' ! n]
      else digits (n div 10) @ [''0123456789'' ! (n mod 10)])"

declare digits.simps [simp del]

definition str_int :: "int \<Rightarrow> string" where
  "str_int i = (if i < 0 then ''-'' @ digits (nat (- i)) else digits (nat i))"

text \<open>\<^verbatim>\<open>str(x)\<close> on the values that can be dictionary keys.\<close>

fun py_str :: "scalar \<Rightarrow> string" where
  "py_str PNone = ''None''"
| "py_str (PBool b) = (if b then ''True'' else ''False'')"
| "py_str (PInt i) = str_int i"
| "py_str (PStr s) = s"

text \<open>\<^verbatim>\<open>sep.join(xs)\<close>.\<close>

fun join :: "string \<Rightarrow> string list \<Rightarrow> string" where
  "join sep [] = []"
| "join sep [x] = x"
| "join sep (x # y # ys) = x @ sep @ join sep (y # ys)"

text \<open>
  \<^verbatim>\<open>key in obj\<close> for a \<^verbatim>\<open>str\<close> key: key membership in a dict, element membership in a
  list, the substring test in a str, and \<^verbatim>\<open>TypeError\<close> on the other values.
\<close>

fun contains :: "string \<Rightarrow> json \<Rightarrow> exn + bool" where
  "contains key (JDict d) = Inr (map_of d key \<noteq> None)"
| "contains key (JList xs) = Inr (Scalar (PStr key) \<in> set xs)"
| "contains key (Scalar (PStr s)) = Inr (sublist key s)"
| "contains key (Scalar x) =
     Inl (Exn TypeError
       (''argument of type '' @ quoted (type_name (Scalar x)) @ '' is not iterable''))"

text \<open>\<^verbatim>\<open>obj[key]\<close> for a \<^verbatim>\<open>str\<close> key.\<close>

fun getitem :: "json \<Rightarrow> string \<Rightarrow> exn + json" where
  "getitem (JDict d) key =
     (case map_of d key of Some v \<Rightarrow> Inr v | None \<Rightarrow> Inl (Exn KeyError key))"
| "getitem (JList xs) key =
     Inl (Exn TypeError ''list indices must be integers or slices, not str'')"
| "getitem (Scalar (PStr s)) key =
     Inl (Exn TypeError (''string indices must be integers, not '' @ quoted ''str''))"
| "getitem (Scalar x) key =
     Inl (Exn TypeError
       (quoted (type_name (Scalar x)) @ '' object is not subscriptable''))"

text \<open>
  \<^verbatim>\<open>len(obj)\<close> and \<^verbatim>\<open>obj[0]\<close>. The loop applies them to \<^verbatim>\<open>response['homeworks']\<close> after
  \<open>check_response\<close> has returned, that is to a list. The length of a str counts its
  characters: the bytes that do not continue a UTF-8 sequence.
\<close>

definition utf8_continuation :: "char \<Rightarrow> bool" where
  "utf8_continuation c = ((128::nat) \<le> of_char c \<and> of_char c < (192::nat))"

fun py_len :: "json \<Rightarrow> exn + nat" where
  "py_len (JList xs) = Inr (length xs)"
| "py_len (JDict d) = Inr (length (remdups (map fst d)))"
| "py_len (Scalar (PStr s)) = Inr (length (filter (\<lambda>c. \<not> utf8_continuation c) s))"
| "py_len (Scalar x) =
     Inl (Exn TypeError
       (''object of type '' @ quoted (type_name (Scalar x)) @ '' has no len()''))"

fun getitem0 :: "json \<Rightarrow> exn + json" where
  "getitem0 (JList xs) =
     (case xs of [] \<Rightarrow> Inl (Exn IndexError ''list index out of range'')
      | x # rest \<Rightarrow> Inr x)"
| "getitem0 (JDict d) = Inl (Exn KeyError ''0'')"
| "getitem0 (Scalar (PStr s)) =
     (case s of [] \<Rightarrow> Inl (Exn IndexError ''string index out of range'')
      | c # rest \<Rightarrow>
          Inr (Scalar (PStr (c # takeWhile utf8_continuation rest))))"
| "getitem0 (Scalar x) =
     Inl (Exn TypeError
       (quoted (type_name (Scalar x)) @ '' object is not subscriptable''))"

text \<open>
  Hashing, as a dictionary lookup does it: lists and dicts are unhashable. Equal keys
  are one key: \<^verbatim>\<open>True == 1\<close> and \<^verbatim>\<open>False == 0\<close>, so \<open>dict_key\<close> sends a bool to its int.
\<close>

fun hashable :: "json \<Rightarrow> exn + scalar" where
  "hashable (Scalar x) = Inr x"
| "hashable v = Inl (Exn TypeError (''unhashable type: '' @ quoted (type_name v)))"

fun dict_key :: "scalar \<Rightarrow> scalar" where
  "dict_key (PBool b) = PInt (if b then 1 else 0)"
| "dict_key x = x"

section \<open>Module state\<close>

text \<open>
  \<open>Str s\<close> is the string \<open>s\<close>; \<open>Fmt p e\<close> is the f-string \<^verbatim>\<open>f'p{e}'\<close>, the prefix \<open>p\<close>
  followed by \<^verbatim>\<open>str(e)\<close> of the exception \<open>e\<close>, kept symbolic.
\<close>

datatype msg = Str string | Fmt string exn

datatype level = DEBUG | ERROR | CRITICAL

text \<open>\<open>Root\<close> is the module \<^verbatim>\<open>logging\<close> (\<^verbatim>\<open>logging.error\<close>), \<open>Module\<close> the object \<^verbatim>\<open>logger\<close>.\<close>

datatype logger_name = Root | Module

type_synonym log_record = "logger_name \<times> level \<times> msg"

text \<open>
  Everything the program mutates or emits: the local \<^verbatim>\<open>timestamp\<close> of \<^verbatim>\<open>main\<close>, the global
  dict \<^verbatim>\<open>homework_statuses\<close>, the log records written, the messages passed to
  \<^verbatim>\<open>bot.send_message\<close>, the \<^verbatim>\<open>from_date\<close> of every \<^verbatim>\<open>requests.get\<close>, and the seconds slept.
\<close>

record state =
  timestamp :: json
  homework_statuses :: "scalar \<rightharpoonup> string"
  logged :: "log_record list"
  outbox :: "msg list"
  requested :: "json list"
  slept :: nat

text \<open>
  What the outside world does during one iteration: the endpoint's answer to a request
  with a given \<^verbatim>\<open>from_date\<close>, and whether \<^verbatim>\<open>bot.send_message\<close> raises on a message.
\<close>

datatype http_result = RequestRaises exn | Response int "exn + json"

record env =
  endpoint :: "json \<Rightarrow> http_result"
  bot :: "msg \<Rightarrow> exn option"

record config =
  PRACTICUM_TOKEN :: "string option"
  TELEGRAM_TOKEN :: "string option"
  TELEGRAM_CHAT_ID :: "string option"

type_synonym 'a action = "state \<Rightarrow> (exn + 'a) \<times> state"

definition andthen :: "'a action \<Rightarrow> ('a \<Rightarrow> 'b action) \<Rightarrow> 'b action" where
  "andthen m f s = (case m s of (Inl e, s') \<Rightarrow> (Inl e, s') | (Inr x, s') \<Rightarrow> f x s')"

definition pure :: "exn + 'a \<Rightarrow> 'a action" where
  "pure r s = (r, s)"

definition write_log :: "logger_name \<Rightarrow> level \<Rightarrow> msg \<Rightarrow> state \<Rightarrow> state" where
  "write_log l lv m s = s\<lparr>logged := logged s @ [(l, lv, m)]\<rparr>"

section \<open>Constants\<close>

definition RETRY_PERIOD :: nat where
  "RETRY_PERIOD = 600"

definition VERDICT_APPROVED :: string where
  "VERDICT_APPROVED =
     [CHR 0xD0, CHR 0xA0, CHR 0xD0, CHR 0xB0, CHR 0xD0, CHR 0xB1, CHR 0xD0, CHR 0xBE,
     CHR 0xD1, CHR 0x82, CHR 0xD0, CHR 0xB0] @ '' '' @ [CHR 0xD0, CHR 0xBF, CHR 0xD1,
     CHR 0x80, CHR 0xD0, CHR 0xBE, CHR 0xD0, CHR 0xB2, CHR 0xD0, CHR 0xB5, CHR 0xD1,
     CHR 0x80, CHR 0xD0, CHR 0xB5, CHR 0xD0, CHR 0xBD, CHR 0xD0, CHR 0xB0] @ '': ''
     @ [CHR 0xD1, CHR 0x80, CHR 0xD0, CHR 0xB5, CHR 0xD0, CHR 0xB2, CHR 0xD1, CHR 0x8C,
     CHR 0xD1, CHR 0x8E, CHR 0xD0, CHR 0xB5, CHR 0xD1, CHR 0x80, CHR 0xD1, CHR 0x83]
     @ '' '' @ [CHR 0xD0, CHR 0xB2, CHR 0xD1, CHR 0x81, CHR 0xD1, CHR 0x91] @ '' ''
     @ [CHR 0xD0, CHR 0xBF, CHR 0xD0, CHR 0xBE, CHR 0xD0, CHR 0xBD, CHR 0xD1, CHR 0x80,
     CHR 0xD0, CHR 0xB0, CHR 0xD0, CHR 0xB2, CHR 0xD0, CHR 0xB8, CHR 0xD0, CHR 0xBB,
     CHR 0xD0, CHR 0xBE, CHR 0xD1, CHR 0x81, CHR 0xD1, CHR 0x8C] @ ''. '' @ [CHR 0xD0,
     CHR 0xA3, CHR 0xD1, CHR 0x80, CHR 0xD0, CHR 0xB0] @ ''!''"

definition VERDICT_REVIEWING :: string where
  "VERDICT_REVIEWING =
     [CHR 0xD0, CHR 0xA0, CHR 0xD0, CHR 0xB0, CHR 0xD0, CHR 0xB1, CHR 0xD0, CHR 0xBE,
     CHR 0xD1, CHR 0x82, CHR 0xD0, CHR 0xB0] @ '' '' @ [CHR 0xD0, CHR 0xB2, CHR 0xD0,
     CHR 0xB7, CHR 0xD1, CHR 0x8F, CHR 0xD1, CHR 0x82, CHR 0xD0, CHR 0xB0] @ '' ''
     @ [CHR 0xD0, CHR 0xBD, CHR 0xD0, CHR 0xB0] @ '' '' @ [CHR 0xD0, CHR 0xBF, CHR 0xD1,
     CHR 0x80, CHR 0xD0, CHR 0xBE, CHR 0xD0, CHR 0xB2, CHR 0xD0, CHR 0xB5, CHR 0xD1,
     CHR 0x80, CHR 0xD0, CHR 0xBA, CHR 0xD1, CHR 0x83] @ '' '' @ [CHR 0xD1, CHR 0x80,
     CHR 0xD0, CHR 0xB5, CHR 0xD0, CHR 0xB2, CHR 0xD1, CHR 0x8C, CHR 0xD1, CHR 0x8E,
     CHR 0xD0, CHR 0xB5, CHR 0xD1, CHR 0x80, CHR 0xD0, CHR 0xBE, CHR 0xD0, CHR 0xBC]
     @ ''.''"

definition VERDICT_REJECTED :: string where
  "VERDICT_REJECTED =
     [CHR 0xD0, CHR 0xA0, CHR 0xD0, CHR 0xB0, CHR 0xD0, CHR 0xB1, CHR 0xD0, CHR 0xBE,
     CHR 0xD1, CHR 0x82, CHR 0xD0, CHR 0xB0] @ '' '' @ [CHR 0xD0, CHR 0xBF, CHR 0xD1,
     CHR 0x80, CHR 0xD0, CHR 0xBE, CHR 0xD0, CHR 0xB2, CHR 0xD0, CHR 0xB5, CHR 0xD1,
     CHR 0x80, CHR 0xD0, CHR 0xB5, CHR 0xD0, CHR 0xBD, CHR 0xD0, CHR 0xB0] @ '': ''
     @ [CHR 0xD1, CHR 0x83] @ '' '' @ [CHR 0xD1, CHR 0x80, CHR 0xD0, CHR 0xB5, CHR 0xD0,
     CHR 0xB2, CHR 0xD1, CHR 0x8C, CHR 0xD1, CHR 0x8E, CHR 0xD0, CHR 0xB5, CHR 0xD1,
     CHR 0x80, CHR 0xD0, CHR 0xB0] @ '' '' @ [CHR 0xD0, CHR 0xB5, CHR 0xD1, CHR 0x81,
     CHR 0xD1, CHR 0x82, CHR 0xD1, CHR 0x8C] @ '' '' @ [CHR 0xD0, CHR 0xB7, CHR 0xD0,
     CHR 0xB0, CHR 0xD0, CHR 0xBC, CHR 0xD0, CHR 0xB5, CHR 0xD1, CHR 0x87, CHR 0xD0,
     CHR 0xB0, CHR 0xD0, CHR 0xBD, CHR 0xD0, CHR 0xB8, CHR 0xD1, CHR 0x8F] @ ''.''"

definition STATUS_CHANGED :: string where
  "STATUS_CHANGED =
     [CHR 0xD0, CHR 0x98, CHR 0xD0, CHR 0xB7, CHR 0xD0, CHR 0xBC, CHR 0xD0, CHR 0xB5,
     CHR 0xD0, CHR 0xBD, CHR 0xD0, CHR 0xB8, CHR 0xD0, CHR 0xBB, CHR 0xD1, CHR 0x81,
     CHR 0xD1, CHR 0x8F] @ '' '' @ [CHR 0xD1, CHR 0x81, CHR 0xD1, CHR 0x82, CHR 0xD0,
     CHR 0xB0, CHR 0xD1, CHR 0x82, CHR 0xD1, CHR 0x83, CHR 0xD1, CHR 0x81] @ '' ''
     @ [CHR 0xD0, CHR 0xBF, CHR 0xD1, CHR 0x80, CHR 0xD0, CHR 0xBE, CHR 0xD0, CHR 0xB2,
     CHR 0xD0, CHR 0xB5, CHR 0xD1, CHR 0x80, CHR 0xD0, CHR 0xBA, CHR 0xD0, CHR 0xB8]
     @ '' '' @ [CHR 0xD1, CHR 0x80, CHR 0xD0, CHR 0xB0, CHR 0xD0, CHR 0xB1, CHR 0xD0,
     CHR 0xBE, CHR 0xD1, CHR 0x82, CHR 0xD1, CHR 0x8B] @ '' '' @ [CHR 0x22]"

definition PROGRAM_FAILURE :: string where
  "PROGRAM_FAILURE =
     [CHR 0xD0, CHR 0xA1, CHR 0xD0, CHR 0xB1, CHR 0xD0, CHR 0xBE, CHR 0xD0, CHR 0xB9]
     @ '' '' @ [CHR 0xD0, CHR 0xB2] @ '' '' @ [CHR 0xD1, CHR 0x80, CHR 0xD0, CHR 0xB0,
     CHR 0xD0, CHR 0xB1, CHR 0xD0, CHR 0xBE, CHR 0xD1, CHR 0x82, CHR 0xD0, CHR 0xB5]
     @ '' '' @ [CHR 0xD0, CHR 0xBF, CHR 0xD1, CHR 0x80, CHR 0xD0, CHR 0xBE, CHR 0xD0,
     CHR 0xB3, CHR 0xD1, CHR 0x80, CHR 0xD0, CHR 0xB0, CHR 0xD0, CHR 0xBC, CHR 0xD0,
     CHR 0xBC, CHR 0xD1, CHR 0x8B] @ '': ''"

definition HOMEWORK_VERDICTS :: "string \<rightharpoonup> string" where
  "HOMEWORK_VERDICTS =
     map_of [(''approved'', VERDICT_APPROVED), (''reviewing'', VERDICT_REVIEWING),
             (''rejected'', VERDICT_REJECTED)]"

text \<open>\<^verbatim>\<open>x in HOMEWORK_VERDICTS\<close> and \<^verbatim>\<open>HOMEWORK_VERDICTS[x]\<close>: only a str equals a str key.\<close>

fun verdict_of :: "scalar \<Rightarrow> string option" where
  "verdict_of (PStr s) = HOMEWORK_VERDICTS s"
| "verdict_of x = None"

section \<open>The functions of the bot\<close>

fun all_set :: "string option list \<Rightarrow> bool" where
  "all_set [] = True"
| "all_set (var # vars) =
     (if var = None \<or> var = Some [] then False else all_set vars)"

definition check_tokens :: "config \<Rightarrow> bool" where
  "check_tokens cfg = all_set [TELEGRAM_CHAT_ID cfg, TELEGRAM_TOKEN cfg, PRACTICUM_TOKEN cfg]"

definition send_message :: "(msg \<Rightarrow> exn option) \<Rightarrow> msg \<Rightarrow> unit action" where
  "send_message b message s =
     (let s1 = s\<lparr>outbox := outbox s @ [message]\<rparr> in
      case b message of
        Some error \<Rightarrow>
          (case exc_match error (ExcClass Exception) of
             Inl e \<Rightarrow> (Inl e, s1)
           | Inr True \<Rightarrow>
               (Inr (), write_log Root ERROR (Fmt ''Error sending message: '' error) s1)
           | Inr False \<Rightarrow> (Inl error, s1))
      | None \<Rightarrow> (Inr (), write_log Root DEBUG (Str ''Message sent'') s1))"

text \<open>The body of the \<^verbatim>\<open>try\<close> block of \<^verbatim>\<open>get_api_answer\<close>.\<close>

definition get_api_answer_try :: "http_result \<Rightarrow> exn + json" where
  "get_api_answer_try r =
     (case r of
        RequestRaises e \<Rightarrow> Inl e
      | Response status_code body \<Rightarrow>
          if status_code \<noteq> 200 then
            Inl (Exn StatusCodeError
              (''Status code is different from 200 : '' @ str_int status_code))
          else body)"

definition get_api_answer :: "(json \<Rightarrow> http_result) \<Rightarrow> json \<Rightarrow> json action" where
  "get_api_answer ep ts s =
     (let s1 = s\<lparr>requested := requested s @ [ts]\<rparr> in
      case get_api_answer_try (ep ts) of
        Inr answer \<Rightarrow> (Inr answer, s1)
      | Inl exc \<Rightarrow>
          (case exc_match exc (ExcInstance RequestException) of
             Inl e \<Rightarrow> (Inl e, s1)
           | Inr True \<Rightarrow>
               (Inr (Scalar PNone), write_log Root ERROR (Str ''Endpoint not available'') s1)
           | Inr False \<Rightarrow>
               (case exc_match exc (ExcClass Exception) of
                  Inl e \<Rightarrow> (Inl e, s1)
                | Inr True \<Rightarrow>
                    (Inr (Scalar PNone),
                     write_log Root ERROR (Fmt ''Endpoint request error: '' exc) s1)
                | Inr False \<Rightarrow> (Inl exc, s1))))"

text \<open>\<^verbatim>\<open>[key for key in keys if key not in obj]\<close>; the first \<^verbatim>\<open>in\<close> that raises ends it.\<close>

fun missing :: "json \<Rightarrow> string list \<Rightarrow> exn + string list" where
  "missing obj [] = Inr []"
| "missing obj (key # keys) =
     (case contains key obj of
        Inl e \<Rightarrow> Inl e
      | Inr present \<Rightarrow>
          (case missing obj keys of
             Inl e \<Rightarrow> Inl e
           | Inr rest \<Rightarrow> Inr (if present then rest else key # rest)))"

definition fail_logged :: "exn_class \<Rightarrow> string \<Rightarrow> 'a action" where
  "fail_logged c m s = (Inl (Exn c m), write_log Root ERROR (Str m) s)"

definition check_response :: "json \<Rightarrow> bool action" where
  "check_response response =
     (case response of
        JDict d \<Rightarrow>
          andthen (pure (missing response [''homeworks'', ''current_date''])) (\<lambda>missing_keys.
            if missing_keys \<noteq> [] then
              fail_logged KeyError (''Keys are missing: '' @ join '', '' missing_keys)
            else
              andthen (pure (getitem response ''homeworks'')) (\<lambda>homeworks.
                case homeworks of
                  JList hs \<Rightarrow> pure (Inr True)
                | _ \<Rightarrow>
                    fail_logged TypeError
                      (''Incorrect type of homework: '' @ type_repr homeworks)))
      | _ \<Rightarrow>
          fail_logged TypeError (''Incorrect type of API response: '' @ type_repr response))"

definition parse_status :: "json \<Rightarrow> string action" where
  "parse_status homework =
     andthen (pure (missing homework [''status'', ''homework_name''])) (\<lambda>missing_subkeys.
       if missing_subkeys \<noteq> [] then
         fail_logged KeyError (''Subkeys are missing: '' @ join '', '' missing_subkeys)
       else
         andthen (pure (getitem homework ''homework_name'')) (\<lambda>name_obj.
         andthen (pure (getitem homework ''status'')) (\<lambda>status_obj.
         andthen (pure (hashable status_obj)) (\<lambda>hw_status.
           case verdict_of hw_status of
             None \<Rightarrow>
               fail_logged KeyError
                 (''Incorrect status of homework: '' @ py_str hw_status)
           | Some verdict \<Rightarrow>
               andthen (pure (hashable name_obj)) (\<lambda>homework_name. (\<lambda>s.
                 if homework_statuses s (dict_key homework_name) \<noteq> Some (py_str hw_status)
                 then
                   (let message =
                          STATUS_CHANGED @ py_str homework_name
                          @ [CHR 0x22] @ ''. '' @ verdict
                    in (Inr message,
                        write_log Module DEBUG (Str message)
                          (s\<lparr>homework_statuses :=
                               (homework_statuses s)
                                 (dict_key homework_name \<mapsto> py_str hw_status)\<rparr>)))
                 else
                   (Inr [], write_log Module DEBUG (Str ''No new statuses'') s)))))))"

text \<open>
  The statement \<^verbatim>\<open>if len(response['homeworks']) > 0:\<close> of the loop with its two-line body.
\<close>

definition notify_first :: "env \<Rightarrow> json \<Rightarrow> unit action" where
  "notify_first e response =
     andthen (pure (getitem response ''homeworks'')) (\<lambda>homeworks.
     andthen (pure (py_len homeworks)) (\<lambda>n.
       if n > 0 then
         andthen (pure (getitem response ''homeworks'')) (\<lambda>homeworks.
         andthen (pure (getitem0 homeworks)) (\<lambda>homework.
         andthen (parse_status homework) (\<lambda>status.
           send_message (bot e) (Str status))))
       else pure (Inr ())))"

text \<open>The \<^verbatim>\<open>try\<close> block of the loop in \<^verbatim>\<open>main\<close>.\<close>

definition iteration_try :: "env \<Rightarrow> unit action" where
  "iteration_try e =
     andthen (\<lambda>s. get_api_answer (endpoint e) (timestamp s) s) (\<lambda>response.
     andthen (check_response response) (\<lambda>ok.
     andthen (notify_first e response) (\<lambda>u.
     andthen (pure (getitem response ''current_date'')) (\<lambda>current_date. (\<lambda>s.
       (Inr (), s\<lparr>timestamp := current_date\<rparr>))))))"

text \<open>
  One pass of \<^verbatim>\<open>while True\<close>: the \<^verbatim>\<open>try\<close> block, the clause \<^verbatim>\<open>except Exception as error\<close>,
  then \<^verbatim>\<open>time.sleep(RETRY_PERIOD)\<close>. \<open>Inl\<close> is an exception that leaves the loop.
\<close>

definition sleep :: "nat \<Rightarrow> unit action" where
  "sleep n s = (Inr (), s\<lparr>slept := slept s + n\<rparr>)"

definition tick :: "env \<Rightarrow> unit action" where
  "tick e s =
     (case iteration_try e s of
        (Inr u, s1) \<Rightarrow> sleep RETRY_PERIOD s1
      | (Inl error, s1) \<Rightarrow>
          (case exc_match error (ExcClass Exception) of
             Inl e' \<Rightarrow> (Inl e', s1)
           | Inr False \<Rightarrow> (Inl error, s1)
           | Inr True \<Rightarrow>
               (let message = Fmt PROGRAM_FAILURE error in
                andthen (send_message (bot e) message) (\<lambda>u. sleep RETRY_PERIOD)
                  (write_log Root ERROR message s1))))"

text \<open>
  The loop never returns by itself, so it is run on a finite prefix of the world's
  behaviour, one \<open>env\<close> per iteration: \<open>(None, s)\<close> when every iteration of the prefix
  was completed (the loop goes on), \<open>(Some e, s)\<close> when the exception \<open>e\<close> left it.
\<close>

fun main_loop :: "env list \<Rightarrow> state \<Rightarrow> exn option \<times> state" where
  "main_loop [] s = (None, s)"
| "main_loop (e # es) s =
     (case tick e s of
        (Inl x, s') \<Rightarrow> (Some x, s')
      | (Inr u, s') \<Rightarrow> main_loop es s')"

text \<open>
  \<^verbatim>\<open>main\<close>: \<open>Fatal\<close> when it raises before the loop (with the records logged until then),
  \<open>Looping\<close> when the loop is still running after the given iterations, \<open>Crashed\<close> when an
  exception left the loop. \<open>now\<close> is \<^verbatim>\<open>int(time.time())\<close>. \<^verbatim>\<open>telegram.Bot(token=...)\<close> builds
  the client handle whose \<^verbatim>\<open>send_message\<close> is the \<open>bot\<close> of each \<open>env\<close>.
\<close>

datatype outcome = Fatal exn "log_record list" | Looping state | Crashed exn state

definition initial_state :: "int \<Rightarrow> state" where
  "initial_state now =
     \<lparr>timestamp = Scalar (PInt now), homework_statuses = Map.empty, logged = [],
      outbox = [], requested = [], slept = 0\<rparr>"

definition main :: "config \<Rightarrow> int \<Rightarrow> env list \<Rightarrow> outcome" where
  "main cfg now es =
     (if check_tokens cfg then
        (case main_loop es (initial_state now) of
           (None, s) \<Rightarrow> Looping s
         | (Some e, s) \<Rightarrow> Crashed e s)
      else
        Fatal (Exn ValueError ''Missing environment variables'')
          [(Module, CRITICAL, Str ''One of the environment variables is missing'')])"

section \<open>Concrete runs used below\<close>

definition hw1_reviewing :: json where
  "hw1_reviewing =
     JDict [(''homework_name'', Scalar (PStr ''hw1'')),
            (''status'', Scalar (PStr ''reviewing''))]"

definition hw1_answer :: json where
  "hw1_answer =
     JDict [(''homeworks'', JList [hw1_reviewing]), (''current_date'', Scalar (PInt 2000))]"

text \<open>The endpoint answers 200 with \<open>hw1_answer\<close> and the bot delivers.\<close>

definition hw1_env :: env where
  "hw1_env = \<lparr>endpoint = (\<lambda>ts. Response 200 (Inr hw1_answer)), bot = (\<lambda>m. None)\<rparr>"

text \<open>The endpoint answers HTTP 500 and the bot is unreachable as well.\<close>

definition http500_env :: env where
  "http500_env =
     \<lparr>endpoint = (\<lambda>ts. Response 500 (Inr (Scalar PNone))),
      bot = (\<lambda>m. Some (Exn TelegramError ''Timed out''))\<rparr>"

text \<open>The endpoint answers 200 with no homework and a \<^verbatim>\<open>current_date\<close> of 5.\<close>

definition backdated_env :: env where
  "backdated_env =
     \<lparr>endpoint = (\<lambda>ts. Response 200
        (Inr (JDict [(''homeworks'', JList []), (''current_date'', Scalar (PInt 5))]))),
      bot = (\<lambda>m. None)\<rparr>"

text \<open>The endpoint answers 200 with an empty object.\<close>

definition no_keys_env :: env where
  "no_keys_env = \<lparr>endpoint = (\<lambda>ts. Response 200 (Inr (JDict []))), bot = (\<lambda>m. None)\<rparr>"

text \<open>The endpoint reports \<open>hw1\<close> with a status that is no key of \<open>HOMEWORK_VERDICTS\<close>.\<close>

definition hw1_lost :: json where
  "hw1_lost =
     JDict [(''homework_name'', Scalar (PStr ''hw1'')), (''status'', Scalar (PStr ''lost''))]"

definition bad_status_env :: env where
  "bad_status_env =
     \<lparr>endpoint = (\<lambda>ts. Response 200
        (Inr (JDict [(''homeworks'', JList [hw1_lost]), (''current_date'', Scalar (PInt 2000))]))),
      bot = (\<lambda>m. None)\<rparr>"

text \<open>The endpoint answers 200 with \<open>hw1_answer\<close> and the bot raises on every message.\<close>

definition hw1_bot_down_env :: env where
  "hw1_bot_down_env =
     \<lparr>endpoint = (\<lambda>ts. Response 200 (Inr hw1_answer)),
      bot = (\<lambda>m. Some (Exn TelegramError ''Timed out''))\<rparr>"

text \<open>The state in which \<open>hw1\<close> was last seen as \<open>reviewing\<close>.\<close>

definition seen_hw1 :: state where
  "seen_hw1 =
     (initial_state 1000)\<lparr>homework_statuses := [PStr ''hw1'' \<mapsto> ''reviewing'']\<rparr>"

definition good_config :: config where
  "good_config =
     \<lparr>PRACTICUM_TOKEN = Some ''p'', TELEGRAM_TOKEN = Some ''t'', TELEGRAM_CHAT_ID = Some ''1''\<rparr>"

definition empty_chat_config :: config where
  "empty_chat_config =
     \<lparr>PRACTICUM_TOKEN = Some ''p'', TELEGRAM_TOKEN = Some ''t'', TELEGRAM_CHAT_ID = Some ''''\<rparr>"

section \<open>Properties of a run\<close>

text \<open>
  The integer a value is, if it is one, and the integer \<^verbatim>\<open>current_date\<close> of an answer whose
  body is a dict.
\<close>

fun as_int :: "json \<Rightarrow> int option" where
  "as_int (Scalar (PInt t)) = Some t"
| "as_int v = None"

fun received_date :: "http_result \<Rightarrow> int option" where
  "received_date (Response status_code (Inr (JDict d))) =
     (case map_of d ''current_date'' of Some v \<Rightarrow> as_int v | None \<Rightarrow> None)"
| "received_date r = None"

fun not_below :: "int option \<Rightarrow> int option \<Rightarrow> bool" where
  "not_below (Some t') (Some t) = (t \<le> t')"
| "not_below x y = False"

text \<open>
  The date received in an iteration is not behind when, if the \<^verbatim>\<open>try\<close> block completes, the
  \<^verbatim>\<open>current_date\<close> of the answer to this iteration's request is an integer not below the
  integer \<^verbatim>\<open>from_date\<close> the request was made with. A run is not behind when this holds in
  each of its iterations, each taken in the state the loop has reached.
\<close>

definition date_not_behind :: "env \<Rightarrow> state \<Rightarrow> bool" where
  "date_not_behind e s =
     (fst (iteration_try e s) = Inr () \<longrightarrow>
        not_below (received_date (endpoint e (timestamp s))) (as_int (timestamp s)))"

fun run_not_behind :: "env list \<Rightarrow> state \<Rightarrow> bool" where
  "run_not_behind [] s = True"
| "run_not_behind (e # es) s = (date_not_behind e s \<and> run_not_behind es (snd (tick e s)))"

text \<open>The timestamps of a run: before its first iteration and after each one.\<close>

fun watermarks :: "env list \<Rightarrow> state \<Rightarrow> json list" where
  "watermarks [] s = [timestamp s]"
| "watermarks (e # es) s = timestamp s # watermarks es (snd (tick e s))"

text \<open>A configuration value is present when it is set and not the empty string.\<close>

definition present :: "string option \<Rightarrow> bool" where
  "present v = (v \<noteq> None \<and> v \<noteq> Some [])"

text \<open>The class of the exception a result carries, if it carries one.\<close>

fun raised_class :: "exn + 'a \<Rightarrow> exn_class option" where
  "raised_class (Inl (Exn c arg)) = Some c"
| "raised_class (Inr x) = None"

section \<open>Frame conditions on actions\<close>

text \<open>
  An action keeps the loop variables when it changes neither the timestamp, nor the
  requests made, nor the time slept. It is atomic in the timestamp when it does the
  same for the requests and the time slept, and a run of it that raises leaves the
  timestamp as it was.
\<close>

definition keeps_loop_vars :: "'a action \<Rightarrow> bool" where
  "keeps_loop_vars m =
     (\<forall>s. timestamp (snd (m s)) = timestamp s \<and> requested (snd (m s)) = requested s
        \<and> slept (snd (m s)) = slept s)"

definition atomic :: "'a action \<Rightarrow> bool" where
  "atomic m =
     (\<forall>s. requested (snd (m s)) = requested s \<and> slept (snd (m s)) = slept s
        \<and> (\<forall>err. fst (m s) = Inl err \<longrightarrow> timestamp (snd (m s)) = timestamp s))"

section \<open>Auxiliary facts\<close>

lemma andthen_pure_Inr: "andthen (pure (Inr x)) f = f x"
  by (rule ext) (simp add: andthen_def pure_def)

lemma andthen_pure_Inl: "andthen (pure (Inl e)) f s = (Inl e, s)"
  by (simp add: andthen_def pure_def)

lemma missing_dict: "missing (JDict d) keys = Inr (filter (\<lambda>k. map_of d k = None) keys)"
  by (induction keys) simp_all

lemma isinstance_Exception: "isinstance exc Exception"
  by (cases exc) simp

lemma andthen_Inr: "m s = (Inr x, s1) \<Longrightarrow> andthen m f s = f x s1"
  by (simp add: andthen_def)

lemma andthen_Inl: "m s = (Inl e, s1) \<Longrightarrow> andthen m f s = (Inl e, s1)"
  by (simp add: andthen_def)

lemmas run_defs =
  tick_def iteration_try_def notify_first_def andthen_def pure_def get_api_answer_def
  get_api_answer_try_def check_response_def parse_status_def send_message_def
  fail_logged_def write_log_def sleep_def Let_def initial_state_def HOMEWORK_VERDICTS_def
  RETRY_PERIOD_def

section \<open>Response validation\<close>

text \<open>
  C6. For a dict payload that lacks \<^verbatim>\<open>homeworks\<close>, \<^verbatim>\<open>current_date\<close> or both,
  \<open>check_response\<close> raises one \<^verbatim>\<open>KeyError\<close> whose message lists every missing key, in the
  order homeworks, current_date, and logs that message once.
\<close>

theorem check_response_names_all_missing_keys:
  "(map_of d ''homeworks'' = None \<and> map_of d ''current_date'' = None \<longrightarrow>
      check_response (JDict d) s =
        (Inl (Exn KeyError ''Keys are missing: homeworks, current_date''),
         write_log Root ERROR (Str ''Keys are missing: homeworks, current_date'') s))
   \<and> (map_of d ''homeworks'' = None \<and> map_of d ''current_date'' \<noteq> None \<longrightarrow>
      check_response (JDict d) s =
        (Inl (Exn KeyError ''Keys are missing: homeworks''),
         write_log Root ERROR (Str ''Keys are missing: homeworks'') s))
   \<and> (map_of d ''homeworks'' \<noteq> None \<and> map_of d ''current_date'' = None \<longrightarrow>
      check_response (JDict d) s =
        (Inl (Exn KeyError ''Keys are missing: current_date''),
         write_log Root ERROR (Str ''Keys are missing: current_date'') s))"
  by (simp add: check_response_def missing_dict andthen_pure_Inr fail_logged_def)

theorem check_response_names_all_missing_keys_witness:
  "check_response (JDict []) (initial_state 0) =
     (Inl (Exn KeyError ''Keys are missing: homeworks, current_date''),
      write_log Root ERROR (Str ''Keys are missing: homeworks, current_date'')
        (initial_state 0))
   \<and> check_response (JDict [(''current_date'', Scalar (PInt 7))]) (initial_state 0) =
     (Inl (Exn KeyError ''Keys are missing: homeworks''),
      write_log Root ERROR (Str ''Keys are missing: homeworks'') (initial_state 0))
   \<and> check_response (JDict [(''homeworks'', JList [])]) (initial_state 0) =
     (Inl (Exn KeyError ''Keys are missing: current_date''),
      write_log Root ERROR (Str ''Keys are missing: current_date'') (initial_state 0))"
  using check_response_names_all_missing_keys [of "[]" "initial_state 0"]
    check_response_names_all_missing_keys
      [of "[(''current_date'', Scalar (PInt 7))]" "initial_state 0"]
    check_response_names_all_missing_keys
      [of "[(''homeworks'', JList [])]" "initial_state 0"]
  by simp

section \<open>The status tracker\<close>

lemma parse_status_wellformed:
  assumes "map_of d ''homework_name'' = Some (Scalar name)"
    and "map_of d ''status'' = Some (Scalar (PStr st))"
    and "HOMEWORK_VERDICTS st = Some verdict"
  shows "parse_status (JDict d) s =
    (if homework_statuses s (dict_key name) \<noteq> Some st then
       (Inr (STATUS_CHANGED @ py_str name @ [CHR 0x22] @ ''. '' @ verdict),
        write_log Module DEBUG
          (Str (STATUS_CHANGED @ py_str name @ [CHR 0x22] @ ''. '' @ verdict))
          (s\<lparr>homework_statuses := (homework_statuses s)(dict_key name \<mapsto> st)\<rparr>))
     else (Inr [], write_log Module DEBUG (Str ''No new statuses'') s))"
  using assms
  by (simp add: parse_status_def missing_dict andthen_pure_Inr Let_def)

text \<open>
  C9. On an item that holds a hashable name and a recognized status, \<open>parse_status\<close>
  leaves the timestamp, the outbox, the requests made and the time slept as they were and
  appends one debug record to the log. When a transition is detected (the name is absent
  from the table or stored with another status) the table is updated at the name's key and
  nowhere else; when none is detected the table is unchanged.
\<close>

theorem parse_status_frame:
  assumes "map_of d ''homework_name'' = Some (Scalar name)"
    and "map_of d ''status'' = Some (Scalar (PStr st))"
    and "HOMEWORK_VERDICTS st = Some verdict"
    and "s' = snd (parse_status (JDict d) s)"
  shows "timestamp s' = timestamp s \<and> outbox s' = outbox s
    \<and> requested s' = requested s \<and> slept s' = slept s
    \<and> (\<exists>m. logged s' = logged s @ [(Module, DEBUG, Str m)])
    \<and> (homework_statuses s (dict_key name) \<noteq> Some st \<longrightarrow>
         homework_statuses s' = (homework_statuses s)(dict_key name \<mapsto> st)
         \<and> (\<forall>k. k \<noteq> dict_key name \<longrightarrow> homework_statuses s' k = homework_statuses s k))
    \<and> (homework_statuses s (dict_key name) = Some st \<longrightarrow>
         homework_statuses s' = homework_statuses s)"
  using assms(4) parse_status_wellformed [OF assms(1-3), of s]
  by (simp add: write_log_def)

theorem parse_status_frame_witness:
  "homework_statuses (snd (parse_status hw1_reviewing (initial_state 1000)))
     = [PStr ''hw1'' \<mapsto> ''reviewing'']
   \<and> outbox (snd (parse_status hw1_reviewing (initial_state 1000))) = []
   \<and> timestamp (snd (parse_status hw1_reviewing (initial_state 1000))) = Scalar (PInt 1000)
   \<and> homework_statuses (snd (parse_status hw1_reviewing seen_hw1))
     = homework_statuses seen_hw1"
proof -
  have v: "HOMEWORK_VERDICTS ''reviewing'' = Some VERDICT_REVIEWING"
    by (simp add: HOMEWORK_VERDICTS_def)
  have n: "map_of [(''homework_name'', Scalar (PStr ''hw1'')),
              (''status'', Scalar (PStr ''reviewing''))] ''homework_name''
           = Some (Scalar (PStr ''hw1''))"
    by simp
  have t: "map_of [(''homework_name'', Scalar (PStr ''hw1'')),
              (''status'', Scalar (PStr ''reviewing''))] ''status''
           = Some (Scalar (PStr ''reviewing''))"
    by simp
  show ?thesis
    using parse_status_frame [OF n t v refl, of "initial_state 1000"]
      parse_status_frame [OF n t v refl, of seen_hw1]
    by (simp add: hw1_reviewing_def initial_state_def seen_hw1_def)
qed

text \<open>
  C5, as amended. For an item with a hashable name and a recognized status, called twice
  in succession from any state: after the first call the table stores that status for
  that name; the second call returns the empty string and leaves the table as it is; the
  first call returns the non-empty notification text when the table did not already
  store that status for the name, and the empty string when it did.
\<close>

theorem parse_status_twice:
  assumes "map_of d ''homework_name'' = Some (Scalar name)"
    and "map_of d ''status'' = Some (Scalar (PStr st))"
    and "HOMEWORK_VERDICTS st = Some verdict"
    and "parse_status (JDict d) s = (r1, s1)"
    and "parse_status (JDict d) s1 = (r2, s2)"
  shows "homework_statuses s1 (dict_key name) = Some st
    \<and> r2 = Inr []
    \<and> homework_statuses s2 = homework_statuses s1
    \<and> (homework_statuses s (dict_key name) \<noteq> Some st \<longrightarrow>
         r1 = Inr (STATUS_CHANGED @ py_str name @ [CHR 0x22] @ ''. '' @ verdict)
         \<and> r1 \<noteq> Inr [])
    \<and> (homework_statuses s (dict_key name) = Some st \<longrightarrow> r1 = Inr [])"
proof -
  have first: "homework_statuses s1 (dict_key name) = Some st"
    using assms(4) parse_status_wellformed [OF assms(1-3), of s]
    by (auto simp: write_log_def split: if_splits)
  have "r2 = Inr [] \<and> homework_statuses s2 = homework_statuses s1"
    using first assms(5) parse_status_wellformed [OF assms(1-3), of s1]
    by (auto simp: write_log_def)
  moreover have "homework_statuses s (dict_key name) \<noteq> Some st \<longrightarrow>
      r1 = Inr (STATUS_CHANGED @ py_str name @ [CHR 0x22] @ ''. '' @ verdict)
      \<and> r1 \<noteq> Inr []"
    using assms(4) parse_status_wellformed [OF assms(1-3), of s] by auto
  moreover have "homework_statuses s (dict_key name) = Some st \<longrightarrow> r1 = Inr []"
    using assms(4) parse_status_wellformed [OF assms(1-3), of s] by auto
  ultimately show ?thesis using first by blast
qed

theorem parse_status_twice_witness:
  "fst (parse_status hw1_reviewing (initial_state 1000))
     = Inr (STATUS_CHANGED @ ''hw1'' @ [CHR 0x22] @ ''. '' @ VERDICT_REVIEWING)
   \<and> fst (parse_status hw1_reviewing (snd (parse_status hw1_reviewing (initial_state 1000))))
     = Inr []
   \<and> homework_statuses (snd (parse_status hw1_reviewing (initial_state 1000))) (PStr ''hw1'')
     = Some ''reviewing''"
proof -
  have v: "HOMEWORK_VERDICTS ''reviewing'' = Some VERDICT_REVIEWING"
    by (simp add: HOMEWORK_VERDICTS_def)
  have n: "map_of [(''homework_name'', Scalar (PStr ''hw1'')),
              (''status'', Scalar (PStr ''reviewing''))] ''homework_name''
           = Some (Scalar (PStr ''hw1''))"
    by simp
  have t: "map_of [(''homework_name'', Scalar (PStr ''hw1'')),
              (''status'', Scalar (PStr ''reviewing''))] ''status''
           = Some (Scalar (PStr ''reviewing''))"
    by simp
  have e: "homework_statuses (initial_state 1000) (dict_key (PStr ''hw1''))
           \<noteq> Some ''reviewing''"
    by (simp add: initial_state_def)
  show ?thesis
    using e parse_status_twice [OF n t v surjective_pairing surjective_pairing,
        of "initial_state 1000"]
    by (simp add: hw1_reviewing_def)
qed

text \<open>
  C5, as stated, fails: with \<open>hw1\<close> already stored as \<open>reviewing\<close>, the first of two
  successive calls with that pair returns the empty string.
\<close>

theorem parse_status_first_call_counterexample:
  "fst (parse_status hw1_reviewing seen_hw1) = Inr []"
  by (simp add: parse_status_def hw1_reviewing_def seen_hw1_def andthen_pure_Inr
      HOMEWORK_VERDICTS_def write_log_def Let_def)

section \<open>The poll loop\<close>

lemma keeps_pure: "keeps_loop_vars (pure r)"
  by (simp add: keeps_loop_vars_def pure_def)

lemma keeps_fail_logged: "keeps_loop_vars (fail_logged c m)"
  by (simp add: keeps_loop_vars_def fail_logged_def write_log_def)

lemma keeps_andthen:
  assumes "keeps_loop_vars m" and "\<And>x. keeps_loop_vars (f x)"
  shows "keeps_loop_vars (andthen m f)"
  unfolding keeps_loop_vars_def
proof
  fix s
  show "timestamp (snd (andthen m f s)) = timestamp s
    \<and> requested (snd (andthen m f s)) = requested s
    \<and> slept (snd (andthen m f s)) = slept s"
  proof (cases "m s")
    case (Pair r s1)
    have m: "timestamp s1 = timestamp s \<and> requested s1 = requested s \<and> slept s1 = slept s"
      using assms(1) Pair by (auto simp: keeps_loop_vars_def dest: spec [of _ s])
    show ?thesis
    proof (cases r)
      case (Inl e)
      then show ?thesis using Pair m by (simp add: andthen_def)
    next
      case (Inr x)
      have "timestamp (snd (f x s1)) = timestamp s1
        \<and> requested (snd (f x s1)) = requested s1 \<and> slept (snd (f x s1)) = slept s1"
        using assms(2) [of x] by (simp add: keeps_loop_vars_def)
      then show ?thesis using Pair Inr m by (simp add: andthen_def)
    qed
  qed
qed

lemma keeps_check_response: "keeps_loop_vars (check_response response)"
  unfolding check_response_def
  by (auto split: json.splits intro!: keeps_andthen keeps_pure keeps_fail_logged)

lemma keeps_send_message: "keeps_loop_vars (send_message b m)"
  by (simp add: keeps_loop_vars_def send_message_def write_log_def Let_def
      isinstance_Exception split: option.splits)

lemma keeps_parse_status: "keeps_loop_vars (parse_status homework)"
  unfolding parse_status_def
  by (auto split: option.splits simp: Let_def write_log_def
      intro!: keeps_andthen keeps_pure keeps_fail_logged)
    (simp add: keeps_loop_vars_def write_log_def Let_def)

lemma send_message_returns: "fst (send_message b m s) = Inr ()"
  by (simp add: send_message_def Let_def isinstance_Exception split: option.splits)

lemma keeps_atomic: "keeps_loop_vars m \<Longrightarrow> atomic m"
  by (simp add: keeps_loop_vars_def atomic_def)

lemma atomic_andthen:
  assumes "keeps_loop_vars m" and "\<And>x. atomic (f x)"
  shows "atomic (andthen m f)"
  unfolding atomic_def
proof
  fix s
  show "requested (snd (andthen m f s)) = requested s
    \<and> slept (snd (andthen m f s)) = slept s
    \<and> (\<forall>err. fst (andthen m f s) = Inl err \<longrightarrow>
         timestamp (snd (andthen m f s)) = timestamp s)"
  proof (cases "m s")
    case (Pair r s1)
    have m: "timestamp s1 = timestamp s \<and> requested s1 = requested s \<and> slept s1 = slept s"
      using assms(1) Pair by (auto simp: keeps_loop_vars_def dest: spec [of _ s])
    show ?thesis
    proof (cases r)
      case (Inl e)
      then show ?thesis using Pair m by (simp add: andthen_def)
    next
      case (Inr x)
      have "requested (snd (f x s1)) = requested s1 \<and> slept (snd (f x s1)) = slept s1
        \<and> (\<forall>err. fst (f x s1) = Inl err \<longrightarrow> timestamp (snd (f x s1)) = timestamp s1)"
        using assms(2) [of x] by (simp add: atomic_def)
      then show ?thesis using Pair Inr m by (simp add: andthen_def)
    qed
  qed
qed

lemma get_api_answer_result:
  "get_api_answer ep ts s =
     ((case get_api_answer_try (ep ts) of
         Inr answer \<Rightarrow> Inr answer
       | Inl exc \<Rightarrow> Inl (Exn TypeError CANNOT_CATCH_MSG)),
      s\<lparr>requested := requested s @ [ts]\<rparr>)"
  by (simp add: get_api_answer_def Let_def split: sum.splits)

lemma keeps_notify_first: "keeps_loop_vars (notify_first e response)"
  unfolding notify_first_def
  by (auto intro!: keeps_andthen keeps_pure keeps_parse_status keeps_send_message)

lemma atomic_after_fetch:
  "atomic
     (andthen (check_response response) (\<lambda>ok.
      andthen (notify_first e response) (\<lambda>u.
      andthen (pure (getitem response ''current_date'')) (\<lambda>current_date. (\<lambda>s.
        (Inr (), s\<lparr>timestamp := current_date\<rparr>))))))"
  by (intro atomic_andthen keeps_check_response keeps_pure keeps_notify_first)
    (simp add: atomic_def)

lemma iteration_try_atomic:
  "requested (snd (iteration_try e s)) = requested s @ [timestamp s]
   \<and> slept (snd (iteration_try e s)) = slept s
   \<and> (fst (iteration_try e s) = Inl err \<longrightarrow>
        timestamp (snd (iteration_try e s)) = timestamp s)"
proof (cases "get_api_answer_try (endpoint e (timestamp s))")
  case (Inl exc)
  have "iteration_try e s =
      (Inl (Exn TypeError CANNOT_CATCH_MSG), s\<lparr>requested := requested s @ [timestamp s]\<rparr>)"
    unfolding iteration_try_def
    by (rule andthen_Inl) (simp add: get_api_answer_result Inl)
  then show ?thesis by simp
next
  case (Inr response)
  let ?s1 = "s\<lparr>requested := requested s @ [timestamp s]\<rparr>"
  let ?rest = "andthen (check_response response) (\<lambda>ok.
      andthen (notify_first e response) (\<lambda>u.
      andthen (pure (getitem response ''current_date'')) (\<lambda>current_date. (\<lambda>s.
        (Inr (), s\<lparr>timestamp := current_date\<rparr>)))))"
  have eq: "iteration_try e s = ?rest ?s1"
    unfolding iteration_try_def
    by (rule andthen_Inr) (simp add: get_api_answer_result Inr)
  have "atomic ?rest" by (rule atomic_after_fetch)
  then have "requested (snd (?rest ?s1)) = requested ?s1
    \<and> slept (snd (?rest ?s1)) = slept ?s1
    \<and> (\<forall>err. fst (?rest ?s1) = Inl err \<longrightarrow> timestamp (snd (?rest ?s1)) = timestamp ?s1)"
    unfolding atomic_def by blast
  then show ?thesis using eq by simp
qed

lemma get_api_answer_try_Inr:
  "get_api_answer_try r = Inr answer \<Longrightarrow> r = Response 200 (Inr answer)"
  by (cases r) (auto simp: get_api_answer_try_def split: if_splits)

lemma iteration_try_success:
  assumes "fst (iteration_try e s) = Inr u"
  shows "\<exists>d hs. get_api_answer_try (endpoint e (timestamp s)) = Inr (JDict d)
    \<and> map_of d ''homeworks'' = Some (JList hs)
    \<and> map_of d ''current_date'' = Some (timestamp (snd (iteration_try e s)))"
  using assms
  unfolding iteration_try_def check_response_def andthen_def pure_def fail_logged_def
    get_api_answer_result
  by (auto split: sum.splits prod.splits json.splits option.splits if_splits
      simp: missing_dict)

lemma tick_result:
  "tick e s =
     (case iteration_try e s of
        (Inr u, s1) \<Rightarrow> (Inr (), s1\<lparr>slept := slept s1 + RETRY_PERIOD\<rparr>)
      | (Inl error, s1) \<Rightarrow>
          (Inr (),
           (snd (send_message (bot e) (Fmt PROGRAM_FAILURE error)
                  (write_log Root ERROR (Fmt PROGRAM_FAILURE error) s1)))
           \<lparr>slept :=
              slept (snd (send_message (bot e) (Fmt PROGRAM_FAILURE error)
                      (write_log Root ERROR (Fmt PROGRAM_FAILURE error) s1)))
              + RETRY_PERIOD\<rparr>))"
proof (cases "iteration_try e s")
  case (Pair r s1)
  show ?thesis
  proof (cases r)
    case (Inr u)
    then show ?thesis using Pair by (simp add: tick_def sleep_def)
  next
    case (Inl error)
    let ?m = "Fmt PROGRAM_FAILURE error"
    let ?s2 = "write_log Root ERROR ?m s1"
    obtain r3 s3 where s3: "send_message (bot e) ?m ?s2 = (r3, s3)"
      by (cases "send_message (bot e) ?m ?s2")
    then have "r3 = Inr ()"
      using send_message_returns [of "bot e" ?m ?s2] by simp
    then show ?thesis
      using Pair Inl s3
      by (simp add: tick_def isinstance_Exception Let_def andthen_def sleep_def)
  qed
qed

lemma tick_returns: "fst (tick e s) = Inr ()"
  by (simp add: tick_result split: prod.splits sum.splits)

lemma send_message_keeps:
  "timestamp (snd (send_message b m s)) = timestamp s
   \<and> requested (snd (send_message b m s)) = requested s"
  using keeps_send_message [of b m] by (simp add: keeps_loop_vars_def)

lemma tick_timestamp: "timestamp (snd (tick e s)) = timestamp (snd (iteration_try e s))"
  by (simp add: tick_result send_message_keeps write_log_def split: prod.splits sum.splits)

lemma tick_requested: "requested (snd (tick e s)) = requested s @ [timestamp s]"
proof -
  have "requested (snd (tick e s)) = requested (snd (iteration_try e s))"
    by (simp add: tick_result send_message_keeps write_log_def
        split: prod.splits sum.splits)
  then show ?thesis using iteration_try_atomic [of e s] by simp
qed

lemma main_loop_Cons: "main_loop (e # es) s = main_loop es (snd (tick e s))"
  using tick_returns [of e s] by (cases "tick e s") simp

lemma main_loop_runs: "fst (main_loop es s) = None"
  by (induction es arbitrary: s) (simp_all add: main_loop_Cons del: main_loop.simps(2))

lemma main_loop_requests:
  "length (requested (snd (main_loop es s))) = length (requested s) + length es"
  by (induction es arbitrary: s)
    (simp_all add: main_loop_Cons tick_requested del: main_loop.simps(2))

lemma check_response_passes:
  assumes "map_of d ''homeworks'' = Some (JList hs)"
    and "map_of d ''current_date'' = Some cd"
  shows "check_response (JDict d) s = (Inr True, s)"
  using assms
  by (simp add: check_response_def missing_dict andthen_pure_Inr pure_def)

lemma iteration_try_fetch_raises:
  assumes "fst (get_api_answer (endpoint e) (timestamp s) s) = Inl err"
  shows "fst (iteration_try e s) = Inl err"
proof -
  obtain s1 where "get_api_answer (endpoint e) (timestamp s) s = (Inl err, s1)"
    using assms by (cases "get_api_answer (endpoint e) (timestamp s) s") simp
  then have "iteration_try e s = (Inl err, s1)"
    unfolding iteration_try_def by (intro andthen_Inl)
  then show ?thesis by simp
qed

lemma iteration_try_validate_raises:
  assumes "get_api_answer (endpoint e) (timestamp s) s = (Inr response, s1)"
    and "fst (check_response response s1) = Inl err"
  shows "fst (iteration_try e s) = Inl err"
proof -
  obtain s2 where c: "check_response response s1 = (Inl err, s2)"
    using assms(2) by (cases "check_response response s1") simp
  have "iteration_try e s =
      andthen (check_response response) (\<lambda>ok.
      andthen (notify_first e response) (\<lambda>u.
      andthen (pure (getitem response ''current_date'')) (\<lambda>current_date. (\<lambda>s.
        (Inr (), s\<lparr>timestamp := current_date\<rparr>))))) s1"
    unfolding iteration_try_def using assms(1) by (intro andthen_Inr)
  also have "\<dots> = (Inl err, s2)"
    using c by (intro andthen_Inl)
  finally show ?thesis by simp
qed

lemma iteration_try_on_first_homework:
  assumes "get_api_answer (endpoint e) (timestamp s) s = (Inr (JDict d), s1)"
    and "map_of d ''homeworks'' = Some (JList (hw # rest))"
    and "map_of d ''current_date'' = Some cd"
  shows "iteration_try e s =
    (case parse_status hw s1 of
       (Inl err, s2) \<Rightarrow> (Inl err, s2)
     | (Inr status, s2) \<Rightarrow>
         (Inr (), (snd (send_message (bot e) (Str status) s2))\<lparr>timestamp := cd\<rparr>))"
proof -
  have "iteration_try e s =
      andthen (check_response (JDict d)) (\<lambda>ok.
      andthen (notify_first e (JDict d)) (\<lambda>u.
      andthen (pure (getitem (JDict d) ''current_date'')) (\<lambda>current_date. (\<lambda>s.
        (Inr (), s\<lparr>timestamp := current_date\<rparr>))))) s1"
    unfolding iteration_try_def using assms(1) by (intro andthen_Inr)
  also have "\<dots> =
      andthen (notify_first e (JDict d)) (\<lambda>u.
      andthen (pure (getitem (JDict d) ''current_date'')) (\<lambda>current_date. (\<lambda>s.
        (Inr (), s\<lparr>timestamp := current_date\<rparr>)))) s1"
    using check_response_passes [OF assms(2,3), of s1] by (intro andthen_Inr)
  also have "\<dots> =
      (case parse_status hw s1 of
         (Inl err, s2) \<Rightarrow> (Inl err, s2)
       | (Inr status, s2) \<Rightarrow>
           (Inr (), (snd (send_message (bot e) (Str status) s2))\<lparr>timestamp := cd\<rparr>))"
  proof (cases "parse_status hw s1")
    case (Pair r s2)
    show ?thesis
    proof (cases r)
      case (Inl err)
      then show ?thesis
        using Pair assms(2,3)
        by (simp add: notify_first_def andthen_def pure_def)
    next
      case (Inr status)
      obtain s3 where "send_message (bot e) (Str status) s2 = (Inr (), s3)"
        using send_message_returns [of "bot e" "Str status" s2]
        by (cases "send_message (bot e) (Str status) s2") simp
      then show ?thesis
        using Pair Inr assms(2,3)
        by (simp add: notify_first_def andthen_def pure_def)
    qed
  qed
  finally show ?thesis .
qed

lemma iteration_try_no_homework:
  assumes "get_api_answer (endpoint e) (timestamp s) s = (Inr (JDict d), s1)"
    and "map_of d ''homeworks'' = Some (JList [])"
    and "map_of d ''current_date'' = Some cd"
  shows "iteration_try e s = (Inr (), s1\<lparr>timestamp := cd\<rparr>)"
proof -
  have "iteration_try e s =
      andthen (check_response (JDict d)) (\<lambda>ok.
      andthen (notify_first e (JDict d)) (\<lambda>u.
      andthen (pure (getitem (JDict d) ''current_date'')) (\<lambda>current_date. (\<lambda>s.
        (Inr (), s\<lparr>timestamp := current_date\<rparr>))))) s1"
    unfolding iteration_try_def using assms(1) by (intro andthen_Inr)
  also have "\<dots> =
      andthen (notify_first e (JDict d)) (\<lambda>u.
      andthen (pure (getitem (JDict d) ''current_date'')) (\<lambda>current_date. (\<lambda>s.
        (Inr (), s\<lparr>timestamp := current_date\<rparr>)))) s1"
    using check_response_passes [OF assms(2,3), of s1] by (intro andthen_Inr)
  also have "\<dots> = (Inr (), s1\<lparr>timestamp := cd\<rparr>)"
    using assms(2,3) by (simp add: notify_first_def andthen_def pure_def)
  finally show ?thesis .
qed

text \<open>
  C3, as amended. An exception raised by the fetch, by the validation or by the tracker
  leaves the \<^verbatim>\<open>try\<close> block, and whenever the \<^verbatim>\<open>try\<close> block raises, the iteration still
  completes, the timestamp after it is the timestamp before it, and the request of the
  next iteration is made with that same \<^verbatim>\<open>from_date\<close>. An exception raised by the bot
  while the status is sent does not leave \<open>send_message\<close>: the \<^verbatim>\<open>try\<close> block completes and
  the timestamp becomes the answer's \<^verbatim>\<open>current_date\<close>.
\<close>

theorem failure_before_notify_keeps_timestamp:
  "(fst (iteration_try e s) = Inl err \<longrightarrow>
      fst (tick e s) = Inr ()
      \<and> timestamp (snd (tick e s)) = timestamp s
      \<and> requested (snd (tick e' (snd (tick e s))))
          = requested (snd (tick e s)) @ [timestamp s])
   \<and> (fst (get_api_answer (endpoint e) (timestamp s) s) = Inl err \<longrightarrow>
      fst (iteration_try e s) = Inl err)
   \<and> (get_api_answer (endpoint e) (timestamp s) s = (Inr response, s1)
       \<and> fst (check_response response s1) = Inl err \<longrightarrow>
      fst (iteration_try e s) = Inl err)
   \<and> (get_api_answer (endpoint e) (timestamp s) s = (Inr (JDict d), s1)
       \<and> map_of d ''homeworks'' = Some (JList (hw # rest))
       \<and> map_of d ''current_date'' = Some cd
       \<and> fst (parse_status hw s1) = Inl err \<longrightarrow>
      fst (iteration_try e s) = Inl err)
   \<and> (get_api_answer (endpoint e) (timestamp s) s = (Inr (JDict d), s1)
       \<and> map_of d ''homeworks'' = Some (JList (hw # rest))
       \<and> map_of d ''current_date'' = Some cd
       \<and> fst (parse_status hw s1) = Inr status
       \<and> bot e (Str status) = Some err \<longrightarrow>
      fst (iteration_try e s) = Inr () \<and> timestamp (snd (tick e s)) = cd)"
proof -
  have a: "fst (iteration_try e s) = Inl err \<longrightarrow>
      fst (tick e s) = Inr ()
      \<and> timestamp (snd (tick e s)) = timestamp s
      \<and> requested (snd (tick e' (snd (tick e s))))
          = requested (snd (tick e s)) @ [timestamp s]"
    using iteration_try_atomic [of e s err]
    by (simp add: tick_returns tick_timestamp tick_requested)
  have b: "get_api_answer (endpoint e) (timestamp s) s = (Inr (JDict d), s1)
       \<and> map_of d ''homeworks'' = Some (JList (hw # rest))
       \<and> map_of d ''current_date'' = Some cd
       \<and> fst (parse_status hw s1) = Inl err \<longrightarrow>
      fst (iteration_try e s) = Inl err"
    by (auto simp: iteration_try_on_first_homework split: prod.splits)
  have c: "get_api_answer (endpoint e) (timestamp s) s = (Inr (JDict d), s1)
       \<and> map_of d ''homeworks'' = Some (JList (hw # rest))
       \<and> map_of d ''current_date'' = Some cd
       \<and> fst (parse_status hw s1) = Inr status
       \<and> bot e (Str status) = Some err \<longrightarrow>
      fst (iteration_try e s) = Inr () \<and> timestamp (snd (tick e s)) = cd"
    by (auto simp: iteration_try_on_first_homework tick_timestamp split: prod.splits)
  show ?thesis
    using a b c iteration_try_fetch_raises [of e s err]
      iteration_try_validate_raises [of e s response s1 err]
    by blast
qed

theorem failure_before_notify_keeps_timestamp_witness:
  "timestamp (snd (tick http500_env (initial_state 1000))) = Scalar (PInt 1000)
   \<and> requested (snd (tick hw1_env (snd (tick http500_env (initial_state 1000)))))
       = [Scalar (PInt 1000), Scalar (PInt 1000)]
   \<and> fst (iteration_try no_keys_env (initial_state 1000))
       = Inl (Exn KeyError ''Keys are missing: homeworks, current_date'')
   \<and> timestamp (snd (tick no_keys_env (initial_state 1000))) = Scalar (PInt 1000)
   \<and> fst (iteration_try bad_status_env (initial_state 1000))
       = Inl (Exn KeyError ''Incorrect status of homework: lost'')
   \<and> timestamp (snd (tick bad_status_env (initial_state 1000))) = Scalar (PInt 1000)
   \<and> fst (iteration_try hw1_bot_down_env (initial_state 1000)) = Inr ()
   \<and> timestamp (snd (tick hw1_bot_down_env (initial_state 1000))) = Scalar (PInt 2000)"
proof -
  let ?s = "initial_state 1000"
  let ?s1 = "?s\<lparr>requested := [Scalar (PInt 1000)]\<rparr>"
  let ?msg = "STATUS_CHANGED @ ''hw1'' @ [CHR 0x22] @ ''. '' @ VERDICT_REVIEWING"
  have ts: "timestamp ?s = Scalar (PInt 1000)"
    by (simp add: initial_state_def)
  have f1: "fst (get_api_answer (endpoint http500_env) (timestamp ?s) ?s)
      = Inl (Exn TypeError CANNOT_CATCH_MSG)"
    by (simp add: get_api_answer_result get_api_answer_try_def http500_env_def)
  have f2: "get_api_answer (endpoint no_keys_env) (timestamp ?s) ?s = (Inr (JDict []), ?s1)"
    by (simp add: get_api_answer_result get_api_answer_try_def no_keys_env_def
        initial_state_def)
  have v2: "fst (check_response (JDict []) ?s1)
      = Inl (Exn KeyError ''Keys are missing: homeworks, current_date'')"
    by (simp add: check_response_def missing_dict andthen_pure_Inr fail_logged_def)
  have f3: "get_api_answer (endpoint bad_status_env) (timestamp ?s) ?s
      = (Inr (JDict [(''homeworks'', JList [hw1_lost]),
                     (''current_date'', Scalar (PInt 2000))]), ?s1)"
    by (simp add: get_api_answer_result get_api_answer_try_def bad_status_env_def
        initial_state_def)
  have p3: "fst (parse_status hw1_lost ?s1)
      = Inl (Exn KeyError ''Incorrect status of homework: lost'')"
    by (simp add: parse_status_def hw1_lost_def andthen_pure_Inr HOMEWORK_VERDICTS_def
        fail_logged_def)
  have f4: "get_api_answer (endpoint hw1_bot_down_env) (timestamp ?s) ?s
      = (Inr (JDict [(''homeworks'', JList [hw1_reviewing]),
                     (''current_date'', Scalar (PInt 2000))]), ?s1)"
    by (simp add: get_api_answer_result get_api_answer_try_def hw1_bot_down_env_def
        hw1_answer_def initial_state_def)
  have p4: "fst (parse_status hw1_reviewing ?s1) = Inr ?msg"
    by (simp add: parse_status_def hw1_reviewing_def andthen_pure_Inr HOMEWORK_VERDICTS_def
        Let_def initial_state_def)
  have b4: "bot hw1_bot_down_env (Str ?msg) = Some (Exn TelegramError ''Timed out'')"
    by (simp add: hw1_bot_down_env_def)
  have fetch: "fst (iteration_try http500_env ?s) = Inl (Exn TypeError CANNOT_CATCH_MSG)"
    using f1 failure_before_notify_keeps_timestamp
      [where e = http500_env and s = ?s and err = "Exn TypeError CANNOT_CATCH_MSG"]
    by blast
  have r1: "timestamp (snd (tick http500_env ?s)) = timestamp ?s
      \<and> requested (snd (tick hw1_env (snd (tick http500_env ?s))))
          = requested (snd (tick http500_env ?s)) @ [timestamp ?s]"
    using fetch failure_before_notify_keeps_timestamp
      [where e = http500_env and s = ?s and err = "Exn TypeError CANNOT_CATCH_MSG"
        and e' = hw1_env]
    by blast
  have validate: "fst (iteration_try no_keys_env ?s)
      = Inl (Exn KeyError ''Keys are missing: homeworks, current_date'')"
    using f2 v2 failure_before_notify_keeps_timestamp
      [where e = no_keys_env and s = ?s and response = "JDict []" and ?s1.0 = ?s1
        and err = "Exn KeyError ''Keys are missing: homeworks, current_date''"]
    by blast
  have r2: "timestamp (snd (tick no_keys_env ?s)) = timestamp ?s"
    using validate failure_before_notify_keeps_timestamp
      [where e = no_keys_env and s = ?s
        and err = "Exn KeyError ''Keys are missing: homeworks, current_date''"]
    by blast
  have observe: "fst (iteration_try bad_status_env ?s)
      = Inl (Exn KeyError ''Incorrect status of homework: lost'')"
    using f3 p3 failure_before_notify_keeps_timestamp
      [where e = bad_status_env and s = ?s and ?s1.0 = ?s1
        and d = "[(''homeworks'', JList [hw1_lost]), (''current_date'', Scalar (PInt 2000))]"
        and hw = hw1_lost and rest = "[]" and cd = "Scalar (PInt 2000)"
        and err = "Exn KeyError ''Incorrect status of homework: lost''"]
    by simp
  have r3: "timestamp (snd (tick bad_status_env ?s)) = timestamp ?s"
    using observe failure_before_notify_keeps_timestamp
      [where e = bad_status_env and s = ?s
        and err = "Exn KeyError ''Incorrect status of homework: lost''"]
    by blast
  have notify: "fst (iteration_try hw1_bot_down_env ?s) = Inr ()
      \<and> timestamp (snd (tick hw1_bot_down_env ?s)) = Scalar (PInt 2000)"
    using f4 p4 b4 failure_before_notify_keeps_timestamp
      [where e = hw1_bot_down_env and s = ?s and ?s1.0 = ?s1
        and d = "[(''homeworks'', JList [hw1_reviewing]),
                  (''current_date'', Scalar (PInt 2000))]"
        and hw = hw1_reviewing and rest = "[]" and cd = "Scalar (PInt 2000)"
        and status = ?msg and err = "Exn TelegramError ''Timed out''"]
    by simp
  show ?thesis
    using r1 validate r2 observe r3 notify
    by (simp add: ts tick_requested initial_state_def)
qed

text \<open>
  C3, as stated, fails for the notify step: the answer is valid, the bot raises while the
  status is sent, \<open>send_message\<close> logs that error, and the timestamp moves from 1000 to
  2000.
\<close>

theorem notify_failure_moves_timestamp_counterexample:
  "bot hw1_bot_down_env
     (Str (STATUS_CHANGED @ ''hw1'' @ [CHR 0x22] @ ''. '' @ VERDICT_REVIEWING))
     = Some (Exn TelegramError ''Timed out'')
   \<and> logged (snd (tick hw1_bot_down_env (initial_state 1000)))
     = [(Module, DEBUG,
         Str (STATUS_CHANGED @ ''hw1'' @ [CHR 0x22] @ ''. '' @ VERDICT_REVIEWING)),
        (Root, ERROR, Fmt ''Error sending message: '' (Exn TelegramError ''Timed out''))]
   \<and> timestamp (initial_state 1000) = Scalar (PInt 1000)
   \<and> timestamp (snd (tick hw1_bot_down_env (initial_state 1000))) = Scalar (PInt 2000)"
  by (simp add: run_defs hw1_bot_down_env_def hw1_answer_def hw1_reviewing_def
      isinstance_Exception)

text \<open>
  C7. \<open>send_message\<close> always returns normally, and when the bot raises it logs that
  error; an iteration always returns normally, and when its \<^verbatim>\<open>try\<close> block raises the
  error is logged and handed to \<open>send_message\<close>; so the loop completes every iteration
  of any finite prefix of the world's behaviour, making one request in each.
\<close>

theorem loop_survives_failures:
  "fst (send_message b m s) = Inr ()
   \<and> (b m = Some err \<longrightarrow>
        logged (snd (send_message b m s))
          = logged s @ [(Root, ERROR, Fmt ''Error sending message: '' err)])
   \<and> fst (tick e s) = Inr ()
   \<and> (fst (iteration_try e s) = Inl exc \<longrightarrow>
        (Root, ERROR, Fmt PROGRAM_FAILURE exc) \<in> set (logged (snd (tick e s)))
        \<and> outbox (snd (tick e s))
            = outbox (snd (iteration_try e s)) @ [Fmt PROGRAM_FAILURE exc])
   \<and> fst (main_loop es s) = None
   \<and> length (requested (snd (main_loop es s))) = length (requested s) + length es"
proof -
  have a: "b m = Some err \<longrightarrow>
        logged (snd (send_message b m s))
          = logged s @ [(Root, ERROR, Fmt ''Error sending message: '' err)]"
    by (simp add: send_message_def Let_def isinstance_Exception write_log_def)
  have b: "fst (iteration_try e s) = Inl exc \<longrightarrow>
        (Root, ERROR, Fmt PROGRAM_FAILURE exc) \<in> set (logged (snd (tick e s)))
        \<and> outbox (snd (tick e s))
            = outbox (snd (iteration_try e s)) @ [Fmt PROGRAM_FAILURE exc]"
    by (cases "iteration_try e s")
      (auto simp: tick_result send_message_def Let_def isinstance_Exception write_log_def
        split: option.splits)
  show ?thesis
    using a b
    by (simp add: send_message_returns tick_returns main_loop_runs main_loop_requests)
qed

theorem loop_survives_failures_witness:
  "fst (main_loop [http500_env, http500_env, hw1_env] (initial_state 1000)) = None
   \<and> length (requested (snd (main_loop [http500_env, http500_env, hw1_env]
        (initial_state 1000)))) = 3
   \<and> outbox (snd (tick http500_env (initial_state 1000)))
       = [Fmt PROGRAM_FAILURE (Exn TypeError CANNOT_CATCH_MSG)]
   \<and> logged (snd (send_message (bot http500_env) (Str ''x'') (initial_state 1000)))
       = [(Root, ERROR, Fmt ''Error sending message: '' (Exn TelegramError ''Timed out''))]"
proof -
  have f: "iteration_try http500_env (initial_state 1000)
      = (Inl (Exn TypeError CANNOT_CATCH_MSG),
         (initial_state 1000)\<lparr>requested := [Scalar (PInt 1000)]\<rparr>)"
    by (simp add: iteration_try_def andthen_def get_api_answer_result
        get_api_answer_try_def http500_env_def initial_state_def)
  have g: "bot http500_env (Str ''x'') = Some (Exn TelegramError ''Timed out'')"
    by (simp add: http500_env_def)
  show ?thesis
    using loop_survives_failures [of "bot http500_env" "Str ''x''" "initial_state 1000"
        "Exn TelegramError ''Timed out''" http500_env "Exn TypeError CANNOT_CATCH_MSG"
        "[http500_env, http500_env, hw1_env]"]
      f g
    by (simp add: initial_state_def)
qed

lemma completed_iteration_sets_timestamp:
  assumes "fst (iteration_try e s) = Inr ()"
  shows "\<exists>d hs. endpoint e (timestamp s) = Response 200 (Inr (JDict d))
    \<and> map_of d ''homeworks'' = Some (JList hs)
    \<and> map_of d ''current_date'' = Some (timestamp (snd (tick e s)))"
  using iteration_try_success [OF assms]
  by (auto simp: tick_timestamp dest: get_api_answer_try_Inr)

lemma valid_answer_sets_timestamp:
  assumes "endpoint e (timestamp s) = Response 200 (Inr (JDict d))"
    and "map_of d ''homeworks'' = Some (JList hs)"
    and "map_of d ''current_date'' = Some cd"
    and "hs = [] \<or> (\<exists>status. fst (parse_status (hd hs)
           (s\<lparr>requested := requested s @ [timestamp s]\<rparr>)) = Inr status)"
  shows "fst (iteration_try e s) = Inr () \<and> timestamp (snd (tick e s)) = cd"
proof -
  let ?s1 = "s\<lparr>requested := requested s @ [timestamp s]\<rparr>"
  have f: "get_api_answer (endpoint e) (timestamp s) s = (Inr (JDict d), ?s1)"
    using assms(1) by (simp add: get_api_answer_result get_api_answer_try_def)
  show ?thesis
  proof (cases hs)
    case Nil
    then show ?thesis
      using iteration_try_no_homework [OF f _ assms(3)] assms(2)
      by (simp add: tick_timestamp)
  next
    case (Cons hw rest)
    then obtain status where "fst (parse_status hw ?s1) = Inr status"
      using assms(4) by auto
    then show ?thesis
      using iteration_try_on_first_homework [OF f _ assms(3), of hw rest] assms(2) Cons
      by (auto simp: tick_timestamp split: prod.splits)
  qed
qed

lemma tick_not_behind:
  assumes "date_not_behind e s" and "timestamp s = Scalar (PInt t)"
  shows "\<exists>t'. timestamp (snd (tick e s)) = Scalar (PInt t') \<and> t \<le> t'"
proof (cases "fst (iteration_try e s)")
  case (Inl err)
  then show ?thesis
    using assms(2) iteration_try_atomic [of e s err] by (simp add: tick_timestamp)
next
  case (Inr u)
  from completed_iteration_sets_timestamp [of e s] Inr obtain d hs where
    a: "endpoint e (timestamp s) = Response 200 (Inr (JDict d))"
    and c: "map_of d ''current_date'' = Some (timestamp (snd (tick e s)))"
    by auto
  have "not_below (as_int (timestamp (snd (tick e s)))) (Some t)"
    using assms Inr a c by (simp add: date_not_behind_def)
  then show ?thesis
    by (cases "timestamp (snd (tick e s))" rule: as_int.cases) simp_all
qed

lemma watermarks_not_behind:
  assumes "run_not_behind es s" and "timestamp s = Scalar (PInt t)"
  shows "\<exists>ts. watermarks es s = map (\<lambda>t. Scalar (PInt t)) (t # ts) \<and> sorted (t # ts)"
  using assms
proof (induction es arbitrary: s t)
  case Nil
  then show ?case by simp
next
  case (Cons e es)
  from Cons.prems obtain t1 where
    t1: "timestamp (snd (tick e s)) = Scalar (PInt t1)" "t \<le> t1"
    using tick_not_behind [of e s t] by auto
  from Cons.prems have "run_not_behind es (snd (tick e s))" by simp
  from Cons.IH [OF this t1(1)] obtain ts where
    ts: "watermarks es (snd (tick e s)) = map (\<lambda>t. Scalar (PInt t)) (t1 # ts)"
      "sorted (t1 # ts)"
    by blast
  have "watermarks (e # es) s = map (\<lambda>t. Scalar (PInt t)) (t # t1 # ts)"
    using ts(1) Cons.prems(2) by simp
  moreover have "sorted (t # t1 # ts)"
    using ts(2) t1(2) by auto
  ultimately show ?case by blast
qed

lemma hw1_env_tick:
  "fst (iteration_try hw1_env s) = Inr ()
   \<and> timestamp (snd (tick hw1_env s)) = Scalar (PInt 2000)"
proof -
  let ?s1 = "s\<lparr>requested := requested s @ [timestamp s]\<rparr>"
  have v: "HOMEWORK_VERDICTS ''reviewing'' = Some VERDICT_REVIEWING"
    by (simp add: HOMEWORK_VERDICTS_def)
  have "\<exists>status. fst (parse_status hw1_reviewing ?s1) = Inr status"
    unfolding hw1_reviewing_def
    using parse_status_wellformed [of _ "PStr ''hw1''" "''reviewing''" VERDICT_REVIEWING ?s1] v
    by (simp split: if_splits)
  then show ?thesis
    using valid_answer_sets_timestamp [of hw1_env s
        "[(''homeworks'', JList [hw1_reviewing]), (''current_date'', Scalar (PInt 2000))]"
        "[hw1_reviewing]" "Scalar (PInt 2000)"]
    by (simp add: hw1_env_def hw1_answer_def)
qed

lemma http500_env_tick:
  "fst (iteration_try http500_env s) = Inl (Exn TypeError CANNOT_CATCH_MSG)
   \<and> timestamp (snd (tick http500_env s)) = timestamp s"
proof -
  have f: "fst (iteration_try http500_env s) = Inl (Exn TypeError CANNOT_CATCH_MSG)"
    by (simp add: iteration_try_def andthen_def get_api_answer_result
        get_api_answer_try_def http500_env_def)
  then show ?thesis
    using iteration_try_atomic [of http500_env s "Exn TypeError CANNOT_CATCH_MSG"]
    by (simp add: tick_timestamp)
qed

text \<open>
  C4, as amended. An iteration whose \<^verbatim>\<open>try\<close> block raises leaves the timestamp as it was.
  An iteration whose \<^verbatim>\<open>try\<close> block completes did so on a 200 answer that is a dict with a
  list under \<^verbatim>\<open>homeworks\<close>, and the timestamp after it is that answer's \<^verbatim>\<open>current_date\<close>;
  it completes on every such answer whose list is empty or whose first homework the
  tracker accepts. Over a run in which every \<^verbatim>\<open>current_date\<close> so assigned is an integer
  not below the \<^verbatim>\<open>from_date\<close> of its request, the timestamps before, between and after
  the iterations are integers in non-decreasing order.
\<close>

theorem timestamp_set_on_success_and_never_behind:
  "(fst (iteration_try e s) = Inl err \<longrightarrow> timestamp (snd (tick e s)) = timestamp s)
   \<and> (fst (iteration_try e s) = Inr () \<longrightarrow>
        (\<exists>d hs. endpoint e (timestamp s) = Response 200 (Inr (JDict d))
           \<and> map_of d ''homeworks'' = Some (JList hs)
           \<and> map_of d ''current_date'' = Some (timestamp (snd (tick e s)))))
   \<and> (endpoint e (timestamp s) = Response 200 (Inr (JDict d))
       \<and> map_of d ''homeworks'' = Some (JList hs)
       \<and> map_of d ''current_date'' = Some cd
       \<and> (hs = [] \<or> (\<exists>status. fst (parse_status (hd hs)
              (s\<lparr>requested := requested s @ [timestamp s]\<rparr>)) = Inr status)) \<longrightarrow>
        fst (iteration_try e s) = Inr () \<and> timestamp (snd (tick e s)) = cd)
   \<and> (run_not_behind es s \<and> timestamp s = Scalar (PInt t) \<longrightarrow>
        (\<exists>ts. watermarks es s = map (\<lambda>t. Scalar (PInt t)) (t # ts) \<and> sorted (t # ts)))"
proof -
  have a: "fst (iteration_try e s) = Inl err \<longrightarrow> timestamp (snd (tick e s)) = timestamp s"
    using iteration_try_atomic [of e s err] by (simp add: tick_timestamp)
  show ?thesis
    using a completed_iteration_sets_timestamp [of e s]
      valid_answer_sets_timestamp [of e s d hs cd] watermarks_not_behind [of es s t]
    by blast
qed

theorem timestamp_set_on_success_and_never_behind_witness:
  "watermarks [hw1_env, hw1_env, http500_env, hw1_env] (initial_state 1000)
     = [Scalar (PInt 1000), Scalar (PInt 2000), Scalar (PInt 2000), Scalar (PInt 2000),
        Scalar (PInt 2000)]
   \<and> run_not_behind [hw1_env, hw1_env, http500_env, hw1_env] (initial_state 1000)
   \<and> (\<exists>ts. watermarks [hw1_env, hw1_env, http500_env, hw1_env] (initial_state 1000)
         = map (\<lambda>t. Scalar (PInt t)) (1000 # ts) \<and> sorted (1000 # ts))
   \<and> timestamp (snd (tick http500_env (initial_state 1000))) = Scalar (PInt 1000)
   \<and> fst (iteration_try hw1_env (initial_state 1000)) = Inr ()
   \<and> timestamp (snd (tick hw1_env (initial_state 1000))) = Scalar (PInt 2000)"
proof -
  let ?s = "initial_state 1000"
  let ?run = "[hw1_env, hw1_env, http500_env, hw1_env]"
  have ts: "timestamp ?s = Scalar (PInt 1000)"
    by (simp add: initial_state_def)
  have w: "watermarks ?run ?s
      = [Scalar (PInt 1000), Scalar (PInt 2000), Scalar (PInt 2000), Scalar (PInt 2000),
         Scalar (PInt 2000)]"
    by (simp add: ts hw1_env_tick http500_env_tick)
  have e: "\<And>v. received_date (endpoint hw1_env v) = Some 2000"
    by (simp add: hw1_env_def hw1_answer_def)
  have r: "run_not_behind ?run ?s"
    by (simp add: date_not_behind_def e ts hw1_env_tick http500_env_tick)
  have f: "fst (iteration_try http500_env ?s) = Inl (Exn TypeError CANNOT_CATCH_MSG)"
    by (simp add: http500_env_tick)
  have a: "endpoint hw1_env (timestamp ?s)
      = Response 200 (Inr (JDict [(''homeworks'', JList [hw1_reviewing]),
                                   (''current_date'', Scalar (PInt 2000))]))"
    by (simp add: hw1_env_def hw1_answer_def)
  have p: "fst (parse_status hw1_reviewing (?s\<lparr>requested := requested ?s @ [timestamp ?s]\<rparr>))
      = Inr (STATUS_CHANGED @ ''hw1'' @ [CHR 0x22] @ ''. '' @ VERDICT_REVIEWING)"
    by (simp add: parse_status_def hw1_reviewing_def andthen_pure_Inr HOMEWORK_VERDICTS_def
        Let_def initial_state_def)
  have run: "\<exists>ts. watermarks ?run ?s = map (\<lambda>t. Scalar (PInt t)) (1000 # ts)
      \<and> sorted (1000 # ts)"
  proof (rule mp [OF timestamp_set_on_success_and_never_behind
        [where es = ?run and s = ?s and t = 1000,
          THEN conjunct2, THEN conjunct2, THEN conjunct2]])
    show "run_not_behind ?run ?s \<and> timestamp ?s = Scalar (PInt 1000)"
      using r ts by (rule conjI)
  qed
  have fail: "timestamp (snd (tick http500_env ?s)) = timestamp ?s"
    by (rule mp [OF timestamp_set_on_success_and_never_behind
          [where e = http500_env and s = ?s and err = "Exn TypeError CANNOT_CATCH_MSG",
            THEN conjunct1]])
      (rule f)
  have ok: "fst (iteration_try hw1_env ?s) = Inr ()
      \<and> timestamp (snd (tick hw1_env ?s)) = Scalar (PInt 2000)"
  proof (rule mp [OF timestamp_set_on_success_and_never_behind
        [where e = hw1_env and s = ?s and cd = "Scalar (PInt 2000)"
          and hs = "[hw1_reviewing]"
          and d = "[(''homeworks'', JList [hw1_reviewing]),
                    (''current_date'', Scalar (PInt 2000))]",
          THEN conjunct2, THEN conjunct2, THEN conjunct1]])
    have "\<exists>status. fst (parse_status (hd [hw1_reviewing])
        (?s\<lparr>requested := requested ?s @ [timestamp ?s]\<rparr>)) = Inr status"
      using p by simp
    then show "endpoint hw1_env (timestamp ?s)
        = Response 200 (Inr (JDict [(''homeworks'', JList [hw1_reviewing]),
                                     (''current_date'', Scalar (PInt 2000))]))
      \<and> map_of [(''homeworks'', JList [hw1_reviewing]),
                  (''current_date'', Scalar (PInt 2000))] ''homeworks''
          = Some (JList [hw1_reviewing])
      \<and> map_of [(''homeworks'', JList [hw1_reviewing]),
                  (''current_date'', Scalar (PInt 2000))] ''current_date''
          = Some (Scalar (PInt 2000))
      \<and> ([hw1_reviewing] = [] \<or> (\<exists>status. fst (parse_status (hd [hw1_reviewing])
             (?s\<lparr>requested := requested ?s @ [timestamp ?s]\<rparr>)) = Inr status))"
      using a by simp
  qed
  from fail ts have fail': "timestamp (snd (tick http500_env ?s)) = Scalar (PInt 1000)"
    by simp
  show ?thesis
    using w r run fail' ok by (intro conjI) simp_all

qed

text \<open>
  C4, as stated, fails: from the timestamp 1000, a valid answer whose \<^verbatim>\<open>current_date\<close> is 5
  sets the timestamp to 5.
\<close>

theorem timestamp_decreases_counterexample:
  "timestamp (snd (tick backdated_env (initial_state 1000))) = Scalar (PInt 5)"
  by (simp add: run_defs backdated_env_def)

section \<open>The status client\<close>

text \<open>
  C2, as amended. When the status code is not 200, the \<^verbatim>\<open>try\<close> block of \<open>get_api_answer\<close>
  raises a \<^verbatim>\<open>StatusCodeError\<close> whose message ends with the observed code, and what the
  caller gets from \<open>get_api_answer\<close> is never a \<^verbatim>\<open>StatusCodeError\<close>.
\<close>

theorem status_code_error_is_intercepted:
  assumes "status_code \<noteq> 200"
  shows "get_api_answer_try (Response status_code body) =
      Inl (Exn StatusCodeError
        (''Status code is different from 200 : '' @ str_int status_code))
    \<and> raised_class (fst (get_api_answer (\<lambda>ts. Response status_code body) ts s))
        \<noteq> Some StatusCodeError"
  using assms by (simp add: get_api_answer_try_def get_api_answer_result)

theorem status_code_error_is_intercepted_witness:
  "get_api_answer_try (Response 500 (Inr (Scalar PNone))) =
      Inl (Exn StatusCodeError ''Status code is different from 200 : 500'')
   \<and> raised_class (fst (get_api_answer (\<lambda>ts. Response 500 (Inr (Scalar PNone)))
        (Scalar (PInt 1000)) (initial_state 1000))) \<noteq> Some StatusCodeError"
proof -
  have d: "str_int 500 = ''500''"
    by (simp add: str_int_def digits.simps)
  show ?thesis
    using status_code_error_is_intercepted
      [of 500 "Inr (Scalar PNone)" "Scalar (PInt 1000)" "initial_state 1000"]
    by (simp add: d)
qed

text \<open>
  C2, as stated, fails: on HTTP 500 the exception that reaches the caller of
  \<open>get_api_answer\<close> is a \<^verbatim>\<open>TypeError\<close>, not a \<^verbatim>\<open>StatusCodeError\<close>.
\<close>

theorem get_api_answer_http500_counterexample:
  "raised_class (fst (get_api_answer (endpoint http500_env) (Scalar (PInt 1000))
      (initial_state 1000))) = Some TypeError"
  by (simp add: get_api_answer_result get_api_answer_try_def http500_env_def)

text \<open>
  C10. On HTTP 500 \<open>get_api_answer\<close> does not return \<^verbatim>\<open>None\<close>: the clause
  \<^verbatim>\<open>except requests.RequestException():\<close> names an instance, so matching the pending
  \<^verbatim>\<open>StatusCodeError\<close> against it raises \<^verbatim>\<open>TypeError\<close>, which reaches the loop. Nothing is
  logged by \<open>get_api_answer\<close>, and \<open>check_response\<close> is not run on that iteration. A
  request that cannot be completed and a 200 answer whose body does not decode end the
  same way.
\<close>

theorem get_api_answer_raises_on_http500:
  "get_api_answer (endpoint http500_env) (Scalar (PInt 1000)) (initial_state 1000)
     = (Inl (Exn TypeError CANNOT_CATCH_MSG),
        (initial_state 1000)\<lparr>requested := [Scalar (PInt 1000)]\<rparr>)
   \<and> iteration_try http500_env (initial_state 1000)
     = (Inl (Exn TypeError CANNOT_CATCH_MSG),
        (initial_state 1000)\<lparr>requested := [Scalar (PInt 1000)]\<rparr>)
   \<and> fst (get_api_answer (\<lambda>ts. RequestRaises (Exn RequestException ''Connection refused''))
        (Scalar (PInt 1000)) (initial_state 1000))
     = Inl (Exn TypeError CANNOT_CATCH_MSG)
   \<and> fst (get_api_answer (\<lambda>ts. Response 200 (Inl (Exn RequestException ''Expecting value'')))
        (Scalar (PInt 1000)) (initial_state 1000))
     = Inl (Exn TypeError CANNOT_CATCH_MSG)"
  by (simp add: iteration_try_def andthen_def get_api_answer_result get_api_answer_try_def
      http500_env_def initial_state_def)

section \<open>Notifications on an unchanged status\<close>

text \<open>
  C1. Two iterations in which the endpoint reports \<open>hw1\<close> as \<open>reviewing\<close>: the first
  hands the notification text to the bot, the second hands it the empty string that
  \<open>parse_status\<close> returns when nothing changed. The bot is called in both.
\<close>

theorem unchanged_status_still_calls_bot:
  "outbox (snd (main_loop [hw1_env, hw1_env] (initial_state 1000)))
     = [Str (STATUS_CHANGED @ ''hw1'' @ [CHR 0x22] @ ''. '' @ VERDICT_REVIEWING), Str []]
   \<and> outbox (snd (tick hw1_env seen_hw1)) = [Str []]"
  by (simp add: run_defs hw1_env_def hw1_answer_def hw1_reviewing_def seen_hw1_def)

section \<open>Start-up\<close>

lemma check_tokens_present:
  "check_tokens cfg =
     (present (TELEGRAM_CHAT_ID cfg) \<and> present (TELEGRAM_TOKEN cfg)
      \<and> present (PRACTICUM_TOKEN cfg))"
  by (auto simp: check_tokens_def present_def)

text \<open>
  C8. When one of the three configuration values is unset or empty, \<open>main\<close> logs a
  critical record and raises \<^verbatim>\<open>ValueError\<close> with no iteration run. When all three are set
  and non-empty, the loop runs: every iteration of the given prefix is completed, one
  request each, and the first request carries the start time.
\<close>

theorem startup_gate:
  "(\<not> (present (TELEGRAM_CHAT_ID cfg) \<and> present (TELEGRAM_TOKEN cfg)
        \<and> present (PRACTICUM_TOKEN cfg)) \<longrightarrow>
      main cfg now es =
        Fatal (Exn ValueError ''Missing environment variables'')
          [(Module, CRITICAL, Str ''One of the environment variables is missing'')])
   \<and> (present (TELEGRAM_CHAT_ID cfg) \<and> present (TELEGRAM_TOKEN cfg)
       \<and> present (PRACTICUM_TOKEN cfg) \<longrightarrow>
      (\<exists>s. main cfg now es = Looping s \<and> length (requested s) = length es
         \<and> take 1 (requested s) = take 1 (map (\<lambda>e. Scalar (PInt now)) es)))"
proof -
  have first: "take 1 (requested (snd (main_loop es (initial_state now))))
      = take 1 (map (\<lambda>e. Scalar (PInt now)) es)"
  proof (cases es)
    case Nil
    then show ?thesis by (simp add: initial_state_def)
  next
    case (Cons e es')
    have "\<And>s. requested s \<noteq> [] \<Longrightarrow>
        take 1 (requested (snd (main_loop es' s))) = take 1 (requested s)"
    proof (induction es')
      case Nil
      then show ?case by simp
    next
      case (Cons e' es'')
      have "requested (snd (tick e' s)) \<noteq> []" by (simp add: tick_requested)
      from Cons.IH [OF this] show ?case
        using Cons.prems
        by (cases "requested s")
          (simp_all add: main_loop_Cons tick_requested del: main_loop.simps(2))
    qed
    from this [of "snd (tick e (initial_state now))"] show ?thesis
      using Cons
      by (simp add: main_loop_Cons tick_requested initial_state_def
          del: main_loop.simps(2))
  qed
  show ?thesis
    using first main_loop_runs [of es "initial_state now"]
      main_loop_requests [of es "initial_state now"]
    by (auto simp: main_def check_tokens_present initial_state_def
        split: prod.splits option.splits)
qed

theorem startup_gate_witness:
  "main empty_chat_config 1000 [hw1_env] =
     Fatal (Exn ValueError ''Missing environment variables'')
       [(Module, CRITICAL, Str ''One of the environment variables is missing'')]
   \<and> (\<exists>s. main good_config 1000 [hw1_env] = Looping s \<and> requested s = [Scalar (PInt 1000)])"
proof -
  have g: "present (TELEGRAM_CHAT_ID good_config) \<and> present (TELEGRAM_TOKEN good_config)
      \<and> present (PRACTICUM_TOKEN good_config)"
    by (simp add: present_def good_config_def)
  have b: "\<not> (present (TELEGRAM_CHAT_ID empty_chat_config)
      \<and> present (TELEGRAM_TOKEN empty_chat_config)
      \<and> present (PRACTICUM_TOKEN empty_chat_config))"
    by (simp add: present_def empty_chat_config_def)
  from startup_gate [of good_config 1000 "[hw1_env]"] g obtain s where
    s: "main good_config 1000 [hw1_env] = Looping s" "length (requested s) = 1"
      "take 1 (requested s) = [Scalar (PInt 1000)]"
    by auto
  then have "requested s = [Scalar (PInt 1000)]"
    by (cases "requested s") simp_all
  then show ?thesis
    using s(1) b startup_gate [of empty_chat_config 1000 "[hw1_env]"] by simp
qed

end
